theory Spec2Isabelle
  imports Main "HOL-Library.Multiset"
begin

section \<open>Errors\<close>

text \<open>
  Go errors as values. The first three constructors are the kinds of failure the
  collaborators (store, bus) can raise; \<open>Errorf\<close> is \<^verbatim>\<open>fmt.Errorf\<close> with a
  plain message, \<open>Wrapf msg err\<close> is \<^verbatim>\<open>fmt.Errorf("msg: %w", err)\<close>.
\<close>

datatype error =
    NotFound
  | DeadlineExceeded
  | PersistenceFailure
  | Errorf string
  | Wrapf string error

section \<open>Data model\<close>

type_synonym MetaMapType = "string \<rightharpoonup> string"

text \<open>
  Modelled from the spec: the declarations of \<^verbatim>\<open>wstore.Client\<close>, \<^verbatim>\<open>wstore.Window\<close>
  and \<^verbatim>\<open>wstore.Block\<close> are missing; the records hold the fields the handlers read and
  write (\<^verbatim>\<open>WindowIds\<close>, \<^verbatim>\<open>TosAgreed\<close>, \<^verbatim>\<open>ActiveTabId\<close>, \<^verbatim>\<open>OID\<close>) and the
  metadata mapping the data model gives a Block.
\<close>

record Client =
  WindowIds :: "string list"
  TosAgreed :: int

record Window =
  ActiveTabId :: string

record Block =
  OID :: string
  Meta :: MetaMapType

record BlockDef =
  Meta :: MetaMapType

text \<open>Modelled from the spec: the metadata keys \<^verbatim>\<open>wstore.MetaKey_*\<close> are missing constants;
  the data model names them view, controller, url and file.\<close>

definition MetaKey_View :: string where "MetaKey_View = ''view''"
definition MetaKey_Controller :: string where "MetaKey_Controller = ''controller''"
definition MetaKey_Url :: string where "MetaKey_Url = ''url''"
definition MetaKey_File :: string where "MetaKey_File = ''file''"

text \<open>Modelled from the spec: the declarations of \<^verbatim>\<open>eventbus.WSLayoutActionData\<close>,
  \<^verbatim>\<open>eventbus.WSEventType\<close> and the constant \<^verbatim>\<open>eventbus.WSEvent_LayoutAction\<close> are
  missing. The payload and the envelope of a layout event have the fields the bootstrap
  fills in; the event kind is a constructor.\<close>

record WSLayoutActionData =
  ActionType :: string
  TabId :: string
  BlockId :: string
  IndexArr :: "int list"
  NodeSize :: nat

datatype WSEventKind = WSEvent_LayoutAction

record WSEventType =
  EventType :: WSEventKind
  Data :: WSLayoutActionData

text \<open>One element of \<^verbatim>\<open>PortableLayout\<close>.\<close>

record LayoutStep =
  IndexArr :: "int list"
  Size :: nat
  BlockDef :: BlockDef

type_synonym PortableLayout = "LayoutStep list"

section \<open>Update journal\<close>

text \<open>
  Modelled from the spec: \<^verbatim>\<open>wstore.ContextWithUpdates\<close>, the journal that store
  mutations append to, and \<^verbatim>\<open>wstore.ContextGetUpdatesRtn\<close> are missing. An update
  record is the kind of mutation with the resulting object; a context carries at most
  one journal (an ordered buffer); a context already carrying one is returned unchanged;
  draining returns the accumulated list and does not clear it. The deadline a context
  carries is not modelled. The buffer is shared by every context derived from the one
  that opened it, so the handlers pass the context through and return it.
\<close>

datatype WaveObj = ClientObj Client | WindowObj Window | BlockObj Block

datatype UpdateType = UpdateType_Create | UpdateType_Update | UpdateType_Delete

type_synonym WaveObjUpdate = "UpdateType \<times> WaveObj"

type_synonym UpdatesRtnType = "WaveObjUpdate list"

record Ctx =
  journal :: "WaveObjUpdate list option"

definition ContextWithUpdates :: "Ctx \<Rightarrow> Ctx" where
  "ContextWithUpdates ctx =
     (case journal ctx of None \<Rightarrow> ctx\<lparr>journal := Some []\<rparr> | Some _ \<Rightarrow> ctx)"

definition ContextAddUpdate :: "Ctx \<Rightarrow> WaveObjUpdate \<Rightarrow> Ctx" where
  "ContextAddUpdate ctx u =
     (case journal ctx of None \<Rightarrow> ctx | Some us \<Rightarrow> ctx\<lparr>journal := Some (us @ [u])\<rparr>)"

definition ContextGetUpdatesRtn :: "Ctx \<Rightarrow> UpdatesRtnType" where
  "ContextGetUpdatesRtn ctx = (case journal ctx of None \<Rightarrow> [] | Some us \<Rightarrow> us)"

section \<open>The collaborators: object store, event bus, clock\<close>

text \<open>
  The state the handlers act on. \<open>client_tbl\<close> is the singleton Client (\<open>None\<close>: the
  lookup fails), \<open>window_tbl\<close> the windows by ID, \<open>block_tbl\<close> the persisted blocks in
  creation order, each with the tab it was created in, \<open>bus_log\<close> every event handed
  to the bus with its target window, in sending order, and \<open>clock\<close> the value
  \<^verbatim>\<open>time.Now().UnixMilli()\<close> reads. Whether a store mutation succeeds is the store's
  business (deadline, persistence failure): \<open>create_results n\<close> is the outcome of the
  \<open>n\<close>-th block creation (an error, or the identifier the store assigns) and
  \<open>update_results n\<close> that of the \<open>n\<close>-th update; \<open>create_calls\<close> and
  \<open>update_calls\<close> count the calls made so far.
\<close>

record World =
  client_tbl :: "Client option"
  window_tbl :: "string \<rightharpoonup> Window"
  block_tbl :: "(string \<times> Block) list"
  bus_log :: "(string \<times> WSEventType) list"
  clock :: int
  create_results :: "nat \<Rightarrow> error + string"
  create_calls :: nat
  update_results :: "nat \<Rightarrow> error option"
  update_calls :: nat

text \<open>Modelled from the spec: \<^verbatim>\<open>wstore.DBGetSingleton\<close> is missing. It returns the unique
  Client and fails if none exists.\<close>

definition DBGetSingleton :: "Ctx \<Rightarrow> World \<Rightarrow> error + Client" where
  "DBGetSingleton ctx w =
     (case client_tbl w of None \<Rightarrow> Inl NotFound | Some c \<Rightarrow> Inr c)"

text \<open>Modelled from the spec: \<^verbatim>\<open>wstore.DBMustGet\<close> is missing. It returns the object
  stored under the ID and fails with an error if it is absent.\<close>

definition DBMustGet :: "Ctx \<Rightarrow> string \<Rightarrow> World \<Rightarrow> error + Window" where
  "DBMustGet ctx oid w =
     (case window_tbl w oid of None \<Rightarrow> Inl NotFound | Some win \<Rightarrow> Inr win)"

text \<open>Modelled from the spec: \<^verbatim>\<open>wstore.DBUpdate\<close> is missing. It persists a full
  replacement of an existing object, fails if the object no longer exists, and on
  success appends an update record to the journal of the context.\<close>

definition DBUpdate :: "Ctx \<Rightarrow> Client \<Rightarrow> World \<Rightarrow> error option \<times> Ctx \<times> World" where
  "DBUpdate ctx val w =
     (let w1 = w\<lparr>update_calls := Suc (update_calls w)\<rparr> in
      case update_results w (update_calls w) of
        Some err \<Rightarrow> (Some err, ctx, w1)
      | None \<Rightarrow>
          (case client_tbl w of
             None \<Rightarrow> (Some NotFound, ctx, w1)
           | Some _ \<Rightarrow>
               (None, ContextAddUpdate ctx (UpdateType_Update, ClientObj val),
                w1\<lparr>client_tbl := Some val\<rparr>)))"

text \<open>Modelled from the spec: \<^verbatim>\<open>objectservice.CreateBlock_NoUI\<close> is missing. Creation
  allocates a new object, assigns an identifier, persists it, and appends a record to
  the journal of the context; a failed creation persists nothing. The runtime options
  the bootstrap passes are always empty and are left out.\<close>

definition CreateBlock_NoUI ::
    "Ctx \<Rightarrow> string \<Rightarrow> BlockDef \<Rightarrow> World \<Rightarrow> (error + Block) \<times> Ctx \<times> World" where
  "CreateBlock_NoUI ctx tabId blockDef w =
     (let w1 = w\<lparr>create_calls := Suc (create_calls w)\<rparr> in
      case create_results w (create_calls w) of
        Inl err \<Rightarrow> (Inl err, ctx, w1)
      | Inr oid \<Rightarrow>
          (let blockData = \<lparr>OID = oid, Block.Meta = BlockDef.Meta blockDef\<rparr> in
           (Inr blockData, ContextAddUpdate ctx (UpdateType_Create, BlockObj blockData),
            w1\<lparr>block_tbl := block_tbl w1 @ [(tabId, blockData)]\<rparr>)))"

text \<open>Modelled from the spec: \<^verbatim>\<open>eventbus.SendEventToWindow\<close> is missing. Sending is
  fire-and-forget and never fails the caller; events to one window keep their order.\<close>

definition SendEventToWindow :: "string \<Rightarrow> WSEventType \<Rightarrow> World \<Rightarrow> World" where
  "SendEventToWindow windowId event w = w\<lparr>bus_log := bus_log w @ [(windowId, event)]\<rparr>"

text \<open>Modelled from the spec: \<^verbatim>\<open>utilfn.SliceIdx\<close> is missing. It looks up the position
  of an element in a slice, \<open>-1\<close> when the element is absent.\<close>

fun SliceIdx_from :: "nat \<Rightarrow> 'a list \<Rightarrow> 'a \<Rightarrow> int" where
  "SliceIdx_from i [] elem = - 1"
| "SliceIdx_from i (x # xs) elem = (if x = elem then int i else SliceIdx_from (Suc i) xs elem)"

definition SliceIdx :: "'a list \<Rightarrow> 'a \<Rightarrow> int" where
  "SliceIdx arr elem = SliceIdx_from 0 arr elem"

text \<open>Modelled from the spec: \<^verbatim>\<open>utilfn.MoveSliceIdxToFront\<close> is missing. It removes the
  entry at the index and reinserts it at index 0, the other entries keeping their
  relative order. The spec says nothing of an index out of range (\<^verbatim>\<open>FocusWindow\<close>
  never passes one); the model returns the slice as it is.\<close>

definition MoveSliceIdxToFront :: "'a list \<Rightarrow> int \<Rightarrow> 'a list" where
  "MoveSliceIdxToFront arr idx =
     (if 0 \<le> idx \<and> idx < int (length arr)
      then arr ! nat idx # (take (nat idx) arr @ drop (Suc (nat idx)) arr)
      else arr)"

section \<open>The client service\<close>

text \<open>
  A handler takes the context and the state and returns its Go result with the context
  and the state it leaves. \<^verbatim>\<open>GetClientData\<close> makes a context of its own from the
  background context, which carries no journal.
\<close>

definition GetClientData :: "World \<Rightarrow> error + Client" where
  "GetClientData w =
     (case DBGetSingleton \<lparr>journal = None\<rparr> w of
        Inl err \<Rightarrow> Inl (Wrapf ''error getting client data'' err)
      | Inr clientData \<Rightarrow> Inr clientData)"

definition FocusWindow :: "Ctx \<Rightarrow> string \<Rightarrow> World \<Rightarrow> error option \<times> Ctx \<times> World" where
  "FocusWindow ctx windowId w =
     (case GetClientData w of
        Inl err \<Rightarrow> (Some err, ctx, w)
      | Inr client \<Rightarrow>
          (let winIdx = SliceIdx (WindowIds client) windowId in
           if winIdx = - 1 then (None, ctx, w)
           else DBUpdate ctx
                  (client\<lparr>WindowIds := MoveSliceIdxToFront (WindowIds client) winIdx\<rparr>) w))"

text \<open>The fixed step list of \<^verbatim>\<open>BootstrapStarterLayout\<close>; \<^verbatim>\<open>Size\<close> is left at its zero
  value by every step.\<close>

definition starterLayout :: PortableLayout where
  "starterLayout =
     [\<lparr>IndexArr = [0], Size = 0,
        BlockDef = \<lparr>Meta = [MetaKey_View \<mapsto> ''term'', MetaKey_Controller \<mapsto> ''shell'']\<rparr>\<rparr>,
      \<lparr>IndexArr = [1], Size = 0,
        BlockDef = \<lparr>Meta = [MetaKey_View \<mapsto> ''cpuplot'']\<rparr>\<rparr>,
      \<lparr>IndexArr = [1, 1], Size = 0,
        BlockDef = \<lparr>Meta = [MetaKey_View \<mapsto> ''web'',
                             MetaKey_Url \<mapsto> ''https://github.com/wavetermdev/waveterm'']\<rparr>\<rparr>,
      \<lparr>IndexArr = [1, 2], Size = 0,
        BlockDef = \<lparr>Meta = [MetaKey_View \<mapsto> ''preview'', MetaKey_File \<mapsto> ''~'']\<rparr>\<rparr>,
      \<lparr>IndexArr = [2], Size = 0,
        BlockDef = \<lparr>Meta = [MetaKey_View \<mapsto> ''term'', MetaKey_Controller \<mapsto> ''shell'']\<rparr>\<rparr>,
      \<lparr>IndexArr = [2, 1], Size = 0,
        BlockDef = \<lparr>Meta = [MetaKey_View \<mapsto> ''waveai'']\<rparr>\<rparr>,
      \<lparr>IndexArr = [2, 2], Size = 0,
        BlockDef = \<lparr>Meta = [MetaKey_View \<mapsto> ''web'',
                             MetaKey_Url \<mapsto> ''https://www.youtube.com/embed/cKqsw_sAsU8'']\<rparr>\<rparr>]"

text \<open>The event the loop sends for one step.\<close>

definition layoutEvent :: "string \<Rightarrow> string \<Rightarrow> LayoutStep \<Rightarrow> WSEventType" where
  "layoutEvent tabId blockId layoutAction =
     \<lparr>EventType = WSEvent_LayoutAction,
      Data = \<lparr>ActionType = ''insertatindex'', TabId = tabId, BlockId = blockId,
              WSLayoutActionData.IndexArr = LayoutStep.IndexArr layoutAction,
              NodeSize = Size layoutAction\<rparr>\<rparr>"

text \<open>The loop of \<^verbatim>\<open>BootstrapStarterLayout\<close> over the steps that remain: create the
  block, stop with the wrapped error if that fails, otherwise send the event and go on.\<close>

fun layoutLoop ::
    "string \<Rightarrow> string \<Rightarrow> PortableLayout \<Rightarrow> Ctx \<Rightarrow> World \<Rightarrow> error option \<times> Ctx \<times> World" where
  "layoutLoop windowId tabId [] ctx w = (None, ctx, w)"
| "layoutLoop windowId tabId (layoutAction # rest) ctx w =
     (case CreateBlock_NoUI ctx tabId (BlockDef layoutAction) w of
        (Inl err, ctx1, w1) \<Rightarrow>
          (Some (Wrapf ''unable to create block for starter layout'' err), ctx1, w1)
      | (Inr blockData, ctx1, w1) \<Rightarrow>
          layoutLoop windowId tabId rest ctx1
            (SendEventToWindow windowId (layoutEvent tabId (OID blockData) layoutAction) w1))"

text \<open>The log line written when the client is not found is not modelled.\<close>

definition BootstrapStarterLayout :: "Ctx \<Rightarrow> World \<Rightarrow> error option \<times> Ctx \<times> World" where
  "BootstrapStarterLayout ctx w =
     (case DBGetSingleton ctx w of
        Inl err \<Rightarrow> (Some (Wrapf ''unable to find client'' err), ctx, w)
      | Inr client \<Rightarrow>
          if length (WindowIds client) < 1
          then (Some (Errorf ''error bootstrapping layout, no windows exist''), ctx, w)
          else
            (let windowId = WindowIds client ! 0 in
             case DBMustGet ctx windowId w of
               Inl err \<Rightarrow> (Some (Wrapf ''error getting window'' err), ctx, w)
             | Inr window \<Rightarrow>
                 (let tabId = ActiveTabId window in
                  layoutLoop windowId tabId starterLayout ctx w)))"

text \<open>\<^verbatim>\<open>AgreeTos\<close> returns the pair of Go results (the batch, \<open>[]\<close> for \<^verbatim>\<open>nil\<close>, and the
  error), with the context and the state it leaves behind.\<close>

definition AgreeTos ::
    "Ctx \<Rightarrow> World \<Rightarrow> (UpdatesRtnType \<times> error option) \<times> Ctx \<times> World" where
  "AgreeTos ctx0 w =
     (let ctx = ContextWithUpdates ctx0 in
      case DBGetSingleton ctx w of
        Inl err \<Rightarrow> (([], Some (Wrapf ''error getting client data'' err)), ctx, w)
      | Inr clientData \<Rightarrow>
          (let timestamp = clock w;
               clientData = clientData\<lparr>TosAgreed := timestamp\<rparr> in
           case DBUpdate ctx clientData w of
             (Some err, ctx1, w1) \<Rightarrow>
               (([], Some (Wrapf ''error updating client data'' err)), ctx1, w1)
           | (None, ctx1, w1) \<Rightarrow>
               (case BootstrapStarterLayout ctx1 w1 of
                  (_, ctx2, w2) \<Rightarrow> ((ContextGetUpdatesRtn ctx2, None), ctx2, w2))))"

section \<open>Concrete states\<close>

text \<open>
  A store with one client, three windows in its list and a registered first window whose
  active tab is \<open>t1\<close>; the store accepts every update and assigns the identifiers
  \<open>b1\<close>, \<dots>, \<open>b7\<close> to the first seven blocks. The variants have a client without
  windows, a store whose third block creation runs out of time, and a store that
  refuses every update.
\<close>

definition demoClient :: Client where
  "demoClient = \<lparr>WindowIds = [''w1'', ''w2'', ''w3''], TosAgreed = 0\<rparr>"

definition demoOids :: "string list" where
  "demoOids = [''b1'', ''b2'', ''b3'', ''b4'', ''b5'', ''b6'', ''b7'']"

definition demoWorld :: World where
  "demoWorld =
     \<lparr>client_tbl = Some demoClient,
      window_tbl = [''w1'' \<mapsto> \<lparr>ActiveTabId = ''t1''\<rparr>],
      block_tbl = [],
      bus_log = [],
      clock = 1700000000000,
      create_results = (\<lambda>n. if n < 7 then Inr (demoOids ! n) else Inl PersistenceFailure),
      create_calls = 0,
      update_results = (\<lambda>n. None),
      update_calls = 0\<rparr>"

definition noWindowsWorld :: World where
  "noWindowsWorld = demoWorld\<lparr>client_tbl := Some \<lparr>WindowIds = [], TosAgreed = 0\<rparr>\<rparr>"

definition thirdCreateFails :: World where
  "thirdCreateFails =
     demoWorld\<lparr>create_results :=
       (\<lambda>n. if n < 2 then Inr (demoOids ! n) else Inl DeadlineExceeded)\<rparr>"

definition updateFailsWorld :: World where
  "updateFailsWorld = demoWorld\<lparr>update_results := (\<lambda>n. Some DeadlineExceeded)\<rparr>"

definition focusedOnce :: "error option \<times> Ctx \<times> World" where
  "focusedOnce = FocusWindow \<lparr>journal = None\<rparr> ''w2'' demoWorld"

definition focusedTwice :: "error option \<times> Ctx \<times> World" where
  "focusedTwice = FocusWindow (fst (snd focusedOnce)) ''w2'' (snd (snd focusedOnce))"

lemmas world_defs = demoWorld_def demoClient_def demoOids_def noWindowsWorld_def
  thirdCreateFails_def updateFailsWorld_def

lemmas run_defs = AgreeTos_def BootstrapStarterLayout_def DBGetSingleton_def DBMustGet_def
  DBUpdate_def CreateBlock_NoUI_def SendEventToWindow_def layoutEvent_def starterLayout_def
  ContextWithUpdates_def ContextAddUpdate_def ContextGetUpdatesRtn_def Let_def
  FocusWindow_def GetClientData_def SliceIdx_def MoveSliceIdxToFront_def

section \<open>Slice helpers\<close>

lemma SliceIdx_from_absent: "elem \<notin> set xs \<Longrightarrow> SliceIdx_from i xs elem = - 1"
  by (induction xs arbitrary: i) auto

lemma SliceIdx_from_present:
  "elem \<in> set xs \<Longrightarrow>
     \<exists>k<length xs. SliceIdx_from i xs elem = int (i + k) \<and> xs ! k = elem \<and>
       elem \<notin> set (take k xs)"
proof (induction xs arbitrary: i)
  case Nil
  then show ?case by simp
next
  case (Cons x xs)
  show ?case
  proof (cases "x = elem")
    case True
    then show ?thesis by (intro exI[of _ 0]) simp
  next
    case False
    with Cons.prems have "elem \<in> set xs" by simp
    from Cons.IH[OF this, of "Suc i"] obtain k where
      k: "k < length xs" "SliceIdx_from (Suc i) xs elem = int (Suc i + k)"
         "xs ! k = elem" "elem \<notin> set (take k xs)" by blast
    with False show ?thesis by (intro exI[of _ "Suc k"]) simp
  qed
qed

lemma SliceIdx_absent: "elem \<notin> set arr \<Longrightarrow> SliceIdx arr elem = - 1"
  by (simp add: SliceIdx_def SliceIdx_from_absent)

lemma SliceIdx_present:
  "elem \<in> set arr \<Longrightarrow>
     \<exists>k<length arr. SliceIdx arr elem = int k \<and> arr ! k = elem \<and> elem \<notin> set (take k arr)"
  using SliceIdx_from_present[of elem arr 0] by (simp add: SliceIdx_def)

lemma MoveSliceIdxToFront_in_range:
  "k < length arr \<Longrightarrow>
     MoveSliceIdxToFront arr (int k) = arr ! k # (take k arr @ drop (Suc k) arr)"
  by (simp add: MoveSliceIdxToFront_def)

lemma mset_move_to_front:
  assumes "k < length arr"
  shows "mset (arr ! k # (take k arr @ drop (Suc k) arr)) = mset arr"
proof -
  from assms have "arr = take k arr @ arr ! k # drop (Suc k) arr"
    by (simp add: id_take_nth_drop)
  then have "mset arr = mset (take k arr @ arr ! k # drop (Suc k) arr)" by simp
  then show ?thesis by simp
qed

section \<open>Store and journal helpers\<close>

lemma GetClientData_Some: "client_tbl w = Some c \<Longrightarrow> GetClientData w = Inr c"
  by (simp add: GetClientData_def DBGetSingleton_def)

lemma CreateBlock_NoUI_ok:
  "create_results w (create_calls w) = Inr oid \<Longrightarrow>
     CreateBlock_NoUI ctx tabId d w =
       (Inr \<lparr>OID = oid, Block.Meta = BlockDef.Meta d\<rparr>,
        ContextAddUpdate ctx
          (UpdateType_Create, BlockObj \<lparr>OID = oid, Block.Meta = BlockDef.Meta d\<rparr>),
        w\<lparr>create_calls := Suc (create_calls w),
          block_tbl := block_tbl w @ [(tabId, \<lparr>OID = oid, Block.Meta = BlockDef.Meta d\<rparr>)]\<rparr>)"
  by (simp add: CreateBlock_NoUI_def Let_def)

lemma CreateBlock_NoUI_fail:
  "create_results w (create_calls w) = Inl e \<Longrightarrow>
     CreateBlock_NoUI ctx tabId d w = (Inl e, ctx, w\<lparr>create_calls := Suc (create_calls w)\<rparr>)"
  by (simp add: CreateBlock_NoUI_def Let_def)

lemma journal_ContextWithUpdates:
  "journal (ContextWithUpdates ctx0) = Some (ContextGetUpdatesRtn ctx0)"
  by (simp add: ContextWithUpdates_def ContextGetUpdatesRtn_def split: option.splits)

lemma journal_after_update:
  "journal (ContextAddUpdate (ContextWithUpdates ctx0) u) =
     Some (ContextGetUpdatesRtn ctx0 @ [u])"
  by (simp add: ContextAddUpdate_def journal_ContextWithUpdates)

section \<open>The loop of the bootstrap\<close>

text \<open>
  The loop run against a store that accepts the first \<open>length oids\<close> creations, with
  the identifiers \<open>oids\<close>, and refuses the next one if a step is left: the result, the
  journal and the state are those of the steps that succeeded.
\<close>

lemma layoutLoop_run:
  "length oids \<le> length steps \<Longrightarrow>
   (\<forall>i<length oids. create_results w (create_calls w + i) = Inr (oids ! i)) \<Longrightarrow>
   (length oids < length steps \<longrightarrow>
      create_results w (create_calls w + length oids) = Inl e) \<Longrightarrow>
   layoutLoop windowId tabId steps ctx w =
     (if length oids < length steps
      then Some (Wrapf ''unable to create block for starter layout'' e) else None,
      foldl ContextAddUpdate ctx
        (map2 (\<lambda>s oid. (UpdateType_Create,
                 BlockObj \<lparr>OID = oid, Block.Meta = BlockDef.Meta (BlockDef s)\<rparr>)) steps oids),
      w\<lparr>create_calls :=
          create_calls w + length oids + (if length oids < length steps then 1 else 0),
        block_tbl := block_tbl w @
          map2 (\<lambda>s oid. (tabId, \<lparr>OID = oid, Block.Meta = BlockDef.Meta (BlockDef s)\<rparr>))
            steps oids,
        bus_log := bus_log w @
          map2 (\<lambda>s oid. (windowId, layoutEvent tabId oid s)) steps oids\<rparr>)"
proof (induction steps arbitrary: oids ctx w)
  case Nil
  then show ?case by simp
next
  case (Cons s rest)
  show ?case
  proof (cases oids)
    case Nil
    with Cons.prems show ?thesis by (simp add: CreateBlock_NoUI_fail)
  next
    case (Cons oid os)
    let ?b = "\<lparr>OID = oid, Block.Meta = BlockDef.Meta (BlockDef s)\<rparr>"
    let ?w1 = "SendEventToWindow windowId (layoutEvent tabId oid s)
                 (w\<lparr>create_calls := Suc (create_calls w),
                    block_tbl := block_tbl w @ [(tabId, ?b)]\<rparr>)"
    from Cons.prems Cons have c0: "create_results w (create_calls w) = Inr oid" by auto
    have l: "length os \<le> length rest" using Cons.prems(1) Cons by simp
    have a: "\<forall>i<length os. create_results ?w1 (create_calls ?w1 + i) = Inr (os ! i)"
    proof (intro allI impI)
      fix i assume "i < length os"
      then have "Suc i < length oids" using Cons by simp
      with Cons.prems(2)
      have "create_results w (create_calls w + Suc i) = Inr (oids ! Suc i)" by blast
      then show "create_results ?w1 (create_calls ?w1 + i) = Inr (os ! i)"
        using Cons by (simp add: SendEventToWindow_def)
    qed
    have f: "length os < length rest \<longrightarrow>
               create_results ?w1 (create_calls ?w1 + length os) = Inl e"
      using Cons.prems(3) Cons by (simp add: SendEventToWindow_def)
    from Cons.IH[OF l a f, of "ContextAddUpdate ctx (UpdateType_Create, BlockObj ?b)"]
    show ?thesis using Cons c0
      by (simp add: CreateBlock_NoUI_ok SendEventToWindow_def)
  qed
qed

text \<open>
  Whatever the store answers, the loop leaves the client alone, and the blocks it adds
  to the store are the ones it adds creation records for, in the same order.
\<close>

lemma layoutLoop_frame:
  "layoutLoop windowId tabId steps ctx w = (r, ctx', w') \<Longrightarrow>
     client_tbl w' = client_tbl w \<and>
     (\<exists>bs. block_tbl w' = block_tbl w @ map (Pair tabId) bs \<and>
           journal ctx' =
             map_option (\<lambda>j. j @ map (\<lambda>b. (UpdateType_Create, BlockObj b)) bs) (journal ctx))"
proof (induction steps arbitrary: ctx w)
  case Nil
  then show ?case by (auto simp: option.map_ident intro: exI[of _ "[]"])
next
  case (Cons s rest)
  show ?case
  proof (cases "create_results w (create_calls w)")
    case (Inl e)
    with Cons.prems show ?thesis
      by (auto simp: CreateBlock_NoUI_fail option.map_ident intro: exI[of _ "[]"])
  next
    case (Inr oid)
    let ?b = "\<lparr>OID = oid, Block.Meta = BlockDef.Meta (BlockDef s)\<rparr>"
    let ?c1 = "ContextAddUpdate ctx (UpdateType_Create, BlockObj ?b)"
    let ?w1 = "SendEventToWindow windowId (layoutEvent tabId oid s)
                 (w\<lparr>create_calls := Suc (create_calls w),
                    block_tbl := block_tbl w @ [(tabId, ?b)]\<rparr>)"
    from Cons.prems Inr have "layoutLoop windowId tabId rest ?c1 ?w1 = (r, ctx', w')"
      by (simp add: CreateBlock_NoUI_ok)
    from Cons.IH[OF this] obtain bs where
      1: "client_tbl w' = client_tbl ?w1"
      and 2: "block_tbl w' = block_tbl ?w1 @ map (Pair tabId) bs"
      and 3: "journal ctx' =
                map_option (\<lambda>j. j @ map (\<lambda>b. (UpdateType_Create, BlockObj b)) bs) (journal ?c1)"
      by blast
    have "client_tbl w' = client_tbl w" using 1 by (simp add: SendEventToWindow_def)
    moreover have "block_tbl w' = block_tbl w @ map (Pair tabId) (?b # bs)"
      using 2 by (simp add: SendEventToWindow_def)
    moreover have "journal ctx' =
        map_option (\<lambda>j. j @ map (\<lambda>b. (UpdateType_Create, BlockObj b)) (?b # bs)) (journal ctx)"
      using 3 by (cases "journal ctx") (simp_all add: ContextAddUpdate_def)
    ultimately show ?thesis by blast
  qed
qed

lemma length_starterLayout: "length starterLayout = 7"
  by (simp add: starterLayout_def)

lemma BootstrapStarterLayout_loop:
  "client_tbl w = Some c \<Longrightarrow> WindowIds c = windowId # others \<Longrightarrow>
   window_tbl w windowId = Some win \<Longrightarrow>
   BootstrapStarterLayout ctx w = layoutLoop windowId (ActiveTabId win) starterLayout ctx w"
  by (simp add: BootstrapStarterLayout_def DBGetSingleton_def DBMustGet_def)

lemma BootstrapStarterLayout_frame:
  assumes "BootstrapStarterLayout ctx w = (r, ctx', w')"
  shows "client_tbl w' = client_tbl w \<and>
     (\<exists>tabId bs. block_tbl w' = block_tbl w @ map (Pair tabId) bs \<and>
           journal ctx' =
             map_option (\<lambda>j. j @ map (\<lambda>b. (UpdateType_Create, BlockObj b)) bs) (journal ctx))"
proof -
  have unchanged: "ctx' = ctx \<Longrightarrow> w' = w \<Longrightarrow> ?thesis"
  proof -
    assume "ctx' = ctx" and "w' = w"
    then have "block_tbl w' = block_tbl w @ map (Pair []) [] \<and>
           journal ctx' =
             map_option (\<lambda>j. j @ map (\<lambda>b. (UpdateType_Create, BlockObj b)) []) (journal ctx)"
      by (simp add: option.map_ident)
    then have "\<exists>tabId bs. block_tbl w' = block_tbl w @ map (Pair tabId) bs \<and>
           journal ctx' =
             map_option (\<lambda>j. j @ map (\<lambda>b. (UpdateType_Create, BlockObj b)) bs) (journal ctx)"
      by (intro exI)
    with \<open>w' = w\<close> show ?thesis by simp
  qed
  show ?thesis
  proof (cases "client_tbl w")
    case None
    with assms have "ctx' = ctx \<and> w' = w"
      by (auto simp: BootstrapStarterLayout_def DBGetSingleton_def)
    then show ?thesis using unchanged by blast
  next
    case (Some c)
    show ?thesis
    proof (cases "WindowIds c")
      case Nil
      with assms Some have "ctx' = ctx \<and> w' = w"
        by (auto simp: BootstrapStarterLayout_def DBGetSingleton_def)
      then show ?thesis using unchanged by blast
    next
      case (Cons windowId others)
      show ?thesis
      proof (cases "window_tbl w windowId")
        case None
        with assms Some Cons have "ctx' = ctx \<and> w' = w"
          by (auto simp: BootstrapStarterLayout_def DBGetSingleton_def DBMustGet_def)
        then show ?thesis using unchanged by blast
      next
        case (Some win)
        from assms BootstrapStarterLayout_loop[OF \<open>client_tbl w = Some c\<close> Cons Some]
        have "layoutLoop windowId (ActiveTabId win) starterLayout ctx w = (r, ctx', w')"
          by simp
        from layoutLoop_frame[OF this] show ?thesis
          by (elim conjE exE) (intro conjI exI, assumption+)
      qed
    qed
  qed
qed

section \<open>The three ways through AgreeTos\<close>

lemma AgreeTos_no_client:
  "client_tbl w = None \<Longrightarrow>
     AgreeTos ctx0 w =
       (([], Some (Wrapf ''error getting client data'' NotFound)), ContextWithUpdates ctx0, w)"
  by (simp add: AgreeTos_def DBGetSingleton_def Let_def)

lemma AgreeTos_update_fails:
  "client_tbl w = Some c \<Longrightarrow> update_results w (update_calls w) = Some e \<Longrightarrow>
     AgreeTos ctx0 w =
       (([], Some (Wrapf ''error updating client data'' e)), ContextWithUpdates ctx0,
        w\<lparr>update_calls := Suc (update_calls w)\<rparr>)"
  by (simp add: AgreeTos_def DBGetSingleton_def DBUpdate_def Let_def)

lemma AgreeTos_update_ok:
  "client_tbl w = Some c \<Longrightarrow> update_results w (update_calls w) = None \<Longrightarrow>
     AgreeTos ctx0 w =
       (case BootstrapStarterLayout
               (ContextAddUpdate (ContextWithUpdates ctx0)
                  (UpdateType_Update, ClientObj (c\<lparr>TosAgreed := clock w\<rparr>)))
               (w\<lparr>update_calls := Suc (update_calls w),
                  client_tbl := Some (c\<lparr>TosAgreed := clock w\<rparr>)\<rparr>) of
          (_, ctx2, w2) \<Rightarrow> ((ContextGetUpdatesRtn ctx2, None), ctx2, w2))"
  by (simp add: AgreeTos_def DBGetSingleton_def DBUpdate_def Let_def)

lemma AgreeTos_success:
  assumes "AgreeTos ctx0 w = ((batch, None), ctx', w')"
  shows "\<exists>c tabId bs. client_tbl w = Some c \<and>
           client_tbl w' = Some (c\<lparr>TosAgreed := clock w\<rparr>) \<and>
           block_tbl w' = block_tbl w @ map (Pair tabId) bs \<and>
           journal ctx' = Some (ContextGetUpdatesRtn ctx0 @
              (UpdateType_Update, ClientObj (c\<lparr>TosAgreed := clock w\<rparr>)) #
              map (\<lambda>b. (UpdateType_Create, BlockObj b)) bs) \<and>
           batch = ContextGetUpdatesRtn ctx'"
proof (cases "client_tbl w")
  case None
  from assms AgreeTos_no_client[OF None, of ctx0] show ?thesis by simp
next
  case (Some c)
  show ?thesis
  proof (cases "update_results w (update_calls w)")
    case (Some e)
    from assms AgreeTos_update_fails[OF \<open>client_tbl w = Some c\<close> Some, of ctx0]
    show ?thesis by simp
  next
    case None
    let ?c = "c\<lparr>TosAgreed := clock w\<rparr>"
    let ?ctx1 = "ContextAddUpdate (ContextWithUpdates ctx0) (UpdateType_Update, ClientObj ?c)"
    let ?w1 = "w\<lparr>update_calls := Suc (update_calls w), client_tbl := Some ?c\<rparr>"
    obtain r where b: "BootstrapStarterLayout ?ctx1 ?w1 = (r, ctx', w')"
      and batch: "batch = ContextGetUpdatesRtn ctx'"
      using assms AgreeTos_update_ok[OF Some None, of ctx0]
      by (cases "BootstrapStarterLayout ?ctx1 ?w1") auto
    from BootstrapStarterLayout_frame[OF b] obtain tabId bs where
      1: "client_tbl w' = client_tbl ?w1"
      and 2: "block_tbl w' = block_tbl ?w1 @ map (Pair tabId) bs"
      and 3: "journal ctx' =
                map_option (\<lambda>j. j @ map (\<lambda>b. (UpdateType_Create, BlockObj b)) bs) (journal ?ctx1)"
      by (elim conjE exE)
    have p1: "client_tbl w' = Some ?c" using 1 by simp
    have p2: "block_tbl w' = block_tbl w @ map (Pair tabId) bs" using 2 by simp
    have p3: "journal ctx' = Some (ContextGetUpdatesRtn ctx0 @
              (UpdateType_Update, ClientObj ?c) # map (\<lambda>b. (UpdateType_Create, BlockObj b)) bs)"
      using 3 by (simp add: journal_after_update)
    show ?thesis
      by (intro exI[of _ c] exI[of _ tabId] exI[of _ bs] conjI) (fact Some p1 p2 p3 batch)+
  qed
qed

lemma AgreeTos_failure:
  assumes "AgreeTos ctx0 w = ((batch, Some e), ctx', w')"
  shows "batch = [] \<and> client_tbl w' = client_tbl w \<and> block_tbl w' = block_tbl w \<and>
         journal ctx' = Some (ContextGetUpdatesRtn ctx0)"
proof (cases "client_tbl w")
  case None
  from assms AgreeTos_no_client[OF None, of ctx0] show ?thesis
    by (auto simp: journal_ContextWithUpdates)
next
  case (Some c)
  show ?thesis
  proof (cases "update_results w (update_calls w)")
    case (Some e')
    from assms AgreeTos_update_fails[OF \<open>client_tbl w = Some c\<close> Some, of ctx0]
    show ?thesis by (auto simp: journal_ContextWithUpdates)
  next
    case None
    from assms AgreeTos_update_ok[OF Some None, of ctx0] show ?thesis
      by (simp split: prod.splits)
  qed
qed

lemma FocusWindow_head:
  assumes "client_tbl w = Some c" and "WindowIds c = windowId # others"
  shows "client_tbl (snd (snd (FocusWindow ctx windowId w))) = Some c"
proof -
  have "SliceIdx (WindowIds c) windowId = 0" using assms(2) by (simp add: SliceIdx_def)
  moreover have "MoveSliceIdxToFront (WindowIds c) 0 = WindowIds c"
    using assms(2) by (simp add: MoveSliceIdxToFront_def)
  ultimately have "FocusWindow ctx windowId w = DBUpdate ctx c w"
    using assms(1) by (simp add: FocusWindow_def GetClientData_Some)
  then show ?thesis using assms(1)
    by (simp add: DBUpdate_def Let_def split: option.splits)
qed

section \<open>Starter-layout bootstrap\<close>

text \<open>
  C1. For a client whose window list is not empty and whose first window is found in
  the store, when the store accepts the seven block creations of the call (assigning
  the identifiers \<open>oids\<close>), \<^verbatim>\<open>BootstrapStarterLayout\<close> returns no error, makes exactly
  seven creation calls, adds to the store exactly the seven blocks of the step list, in
  the list's order and in the window's active tab, and hands the bus exactly seven
  layout-insert events, all to the first window of the list, in the list's order, the
  event of a step carrying the step's index path, the identifier of the block created
  in that step and the window's active tab.
\<close>

theorem BootstrapStarterLayout_creates_all:
  assumes "client_tbl w = Some c" and "WindowIds c = windowId # others"
    and "window_tbl w windowId = Some win"
    and "length oids = 7"
    and "\<forall>i<7. create_results w (create_calls w + i) = Inr (oids ! i)"
    and "BootstrapStarterLayout ctx w = (r, ctx', w')"
  shows "r = None \<and> length starterLayout = 7 \<and>
         create_calls w' = create_calls w + 7 \<and>
         block_tbl w' = block_tbl w @
           map2 (\<lambda>s oid. (ActiveTabId win,
                   \<lparr>OID = oid, Block.Meta = BlockDef.Meta (BlockDef s)\<rparr>))
             starterLayout oids \<and>
         bus_log w' = bus_log w @
           map2 (\<lambda>s oid. (windowId,
                   \<lparr>EventType = WSEvent_LayoutAction,
                    Data = \<lparr>ActionType = ''insertatindex'', TabId = ActiveTabId win,
                            BlockId = oid,
                            WSLayoutActionData.IndexArr = LayoutStep.IndexArr s,
                            NodeSize = Size s\<rparr>\<rparr>))
             starterLayout oids \<and>
         length (block_tbl w') = length (block_tbl w) + 7 \<and>
         length (bus_log w') = length (bus_log w) + 7"
proof -
  have len: "length oids \<le> length starterLayout" "\<not> length oids < length starterLayout"
    using assms(4) by (simp_all add: length_starterLayout)
  have all: "\<forall>i<length oids. create_results w (create_calls w + i) = Inr (oids ! i)"
    using assms(4,5) by simp
  have "layoutLoop windowId (ActiveTabId win) starterLayout ctx w = (r, ctx', w')"
    using BootstrapStarterLayout_loop[OF assms(1-3)] assms(6) by simp
  with layoutLoop_run[OF len(1) all, of NotFound windowId "ActiveTabId win" ctx] len(2)
  have r: "r = None"
    and w': "w' = w\<lparr>create_calls := create_calls w + length oids,
        block_tbl := block_tbl w @
          map2 (\<lambda>s oid. (ActiveTabId win,
                  \<lparr>OID = oid, Block.Meta = BlockDef.Meta (BlockDef s)\<rparr>)) starterLayout oids,
        bus_log := bus_log w @
          map2 (\<lambda>s oid. (windowId, layoutEvent (ActiveTabId win) oid s)) starterLayout oids\<rparr>"
    by simp_all
  show ?thesis
    using r assms(4) by (simp add: w' length_starterLayout layoutEvent_def)
qed

theorem BootstrapStarterLayout_creates_all_witness:
  "client_tbl demoWorld = Some demoClient \<and>
   WindowIds demoClient = ''w1'' # [''w2'', ''w3''] \<and>
   window_tbl demoWorld ''w1'' = Some \<lparr>ActiveTabId = ''t1''\<rparr> \<and>
   map (\<lambda>i. create_results demoWorld (create_calls demoWorld + i)) [0..<7] =
     map Inr demoOids \<and>
   fst (BootstrapStarterLayout \<lparr>journal = None\<rparr> demoWorld) = None \<and>
   map fst (bus_log (snd (snd (BootstrapStarterLayout \<lparr>journal = None\<rparr> demoWorld)))) =
     [''w1'', ''w1'', ''w1'', ''w1'', ''w1'', ''w1'', ''w1''] \<and>
   map (\<lambda>e. (WSLayoutActionData.IndexArr (Data (snd e)), BlockId (Data (snd e)),
              TabId (Data (snd e))))
     (bus_log (snd (snd (BootstrapStarterLayout \<lparr>journal = None\<rparr> demoWorld)))) =
     [([0], ''b1'', ''t1''), ([1], ''b2'', ''t1''), ([1, 1], ''b3'', ''t1''),
      ([1, 2], ''b4'', ''t1''), ([2], ''b5'', ''t1''), ([2, 1], ''b6'', ''t1''),
      ([2, 2], ''b7'', ''t1'')] \<and>
   map (\<lambda>b. (fst b, OID (snd b)))
     (block_tbl (snd (snd (BootstrapStarterLayout \<lparr>journal = None\<rparr> demoWorld)))) =
     map (Pair ''t1'') demoOids"
proof -
  let ?R = "BootstrapStarterLayout \<lparr>journal = None\<rparr> demoWorld"
  have h5: "\<forall>i<7. create_results demoWorld (create_calls demoWorld + i) = Inr (demoOids ! i)"
    by (simp add: demoWorld_def)
  have h7: "map (\<lambda>i. create_results demoWorld (create_calls demoWorld + i)) [0..<7] =
      map Inr demoOids"
    by (simp add: demoWorld_def demoOids_def upt_rec)
  have c: "client_tbl demoWorld = Some demoClient"
    "WindowIds demoClient = ''w1'' # [''w2'', ''w3'']"
    "window_tbl demoWorld ''w1'' = Some \<lparr>ActiveTabId = ''t1''\<rparr>" "length demoOids = 7"
    by (simp_all add: demoWorld_def demoClient_def demoOids_def)
  have p: "?R = (fst ?R, fst (snd ?R), snd (snd ?R))" by simp
  note t = BootstrapStarterLayout_creates_all[OF c h5 p]
  note r = t[THEN conjunct1]
  note b = t[THEN conjunct2, THEN conjunct2, THEN conjunct2, THEN conjunct1]
  note e = t[THEN conjunct2, THEN conjunct2, THEN conjunct2, THEN conjunct2, THEN conjunct1]
  have e1: "map fst (bus_log (snd (snd ?R))) =
     [''w1'', ''w1'', ''w1'', ''w1'', ''w1'', ''w1'', ''w1'']"
    unfolding e by (simp add: demoWorld_def starterLayout_def demoOids_def)
  have e2: "map (\<lambda>e. (WSLayoutActionData.IndexArr (Data (snd e)), BlockId (Data (snd e)),
              TabId (Data (snd e)))) (bus_log (snd (snd ?R))) =
     [([0], ''b1'', ''t1''), ([1], ''b2'', ''t1''), ([1, 1], ''b3'', ''t1''),
      ([1, 2], ''b4'', ''t1''), ([2], ''b5'', ''t1''), ([2, 1], ''b6'', ''t1''),
      ([2, 2], ''b7'', ''t1'')]"
    unfolding e by (simp add: demoWorld_def starterLayout_def demoOids_def)
  have b1: "map (\<lambda>b. (fst b, OID (snd b))) (block_tbl (snd (snd ?R))) =
     map (Pair ''t1'') demoOids"
    unfolding b by (simp add: demoWorld_def starterLayout_def demoOids_def)
  from c(1-3) h7 r e1 e2 b1 show ?thesis by (intro conjI)
qed

text \<open>
  C2. For \<open>1 < k \<le> 7\<close>, when the store accepts the first \<open>k - 1\<close> block creations of the
  call and refuses the \<open>k\<close>-th with the error \<open>e\<close>, \<^verbatim>\<open>BootstrapStarterLayout\<close> returns
  an error (wrapping \<open>e\<close>); the blocks of steps \<open>1..k-1\<close> are in the store and their
  events have been handed to the bus, nothing being rolled back; no event is sent for
  step \<open>k\<close> or a later step; and the call stops after \<open>k\<close> creation calls, so no block
  of a later step is attempted.
\<close>

theorem BootstrapStarterLayout_partial:
  assumes "client_tbl w = Some c" and "WindowIds c = windowId # others"
    and "window_tbl w windowId = Some win"
    and "1 < k" and "k \<le> 7"
    and "length oids = k - 1"
    and "\<forall>i<k - 1. create_results w (create_calls w + i) = Inr (oids ! i)"
    and "create_results w (create_calls w + (k - 1)) = Inl e"
    and "BootstrapStarterLayout ctx w = (r, ctx', w')"
  shows "r = Some (Wrapf ''unable to create block for starter layout'' e) \<and>
         create_calls w' = create_calls w + k \<and>
         block_tbl w' = block_tbl w @
           map2 (\<lambda>s oid. (ActiveTabId win,
                   \<lparr>OID = oid, Block.Meta = BlockDef.Meta (BlockDef s)\<rparr>))
             (take (k - 1) starterLayout) oids \<and>
         bus_log w' = bus_log w @
           map2 (\<lambda>s oid. (windowId,
                   \<lparr>EventType = WSEvent_LayoutAction,
                    Data = \<lparr>ActionType = ''insertatindex'', TabId = ActiveTabId win,
                            BlockId = oid,
                            WSLayoutActionData.IndexArr = LayoutStep.IndexArr s,
                            NodeSize = Size s\<rparr>\<rparr>))
             (take (k - 1) starterLayout) oids \<and>
         length (block_tbl w') = length (block_tbl w) + (k - 1) \<and>
         length (bus_log w') = length (bus_log w) + (k - 1) \<and>
         client_tbl w' = client_tbl w"
proof -
  have len: "length oids \<le> length starterLayout" "length oids < length starterLayout"
    using assms(4-6) by (simp_all add: length_starterLayout)
  have all: "\<forall>i<length oids. create_results w (create_calls w + i) = Inr (oids ! i)"
    using assms(6,7) by simp
  have bad: "length oids < length starterLayout \<longrightarrow>
      create_results w (create_calls w + length oids) = Inl e"
    using assms(6,8) by simp
  have "layoutLoop windowId (ActiveTabId win) starterLayout ctx w = (r, ctx', w')"
    using BootstrapStarterLayout_loop[OF assms(1-3)] assms(9) by simp
  with layoutLoop_run[OF len(1) all bad, of windowId "ActiveTabId win" ctx] len(2)
  have r: "r = Some (Wrapf ''unable to create block for starter layout'' e)"
    and w': "w' = w\<lparr>create_calls := create_calls w + length oids + 1,
        block_tbl := block_tbl w @
          map2 (\<lambda>s oid. (ActiveTabId win,
                  \<lparr>OID = oid, Block.Meta = BlockDef.Meta (BlockDef s)\<rparr>)) starterLayout oids,
        bus_log := bus_log w @
          map2 (\<lambda>s oid. (windowId, layoutEvent (ActiveTabId win) oid s)) starterLayout oids\<rparr>"
    by simp_all
  have z: "zip (take (k - 1) starterLayout) oids = zip starterLayout oids"
  proof -
    have "zip (take (k - 1) starterLayout) oids =
        zip (take (k - 1) starterLayout) (take (k - 1) oids)"
      using assms(6) by simp
    also have "\<dots> = take (k - 1) (zip starterLayout oids)" by (simp only: take_zip)
    also have "\<dots> = zip starterLayout oids" using assms(6) by simp
    finally show ?thesis .
  qed
  have n: "create_calls w + length oids + 1 = create_calls w + k"
    using assms(4,6) by simp
  have m: "min (length starterLayout) (length oids) = k - 1"
    using len(1) assms(6) by simp
  show ?thesis
    unfolding z w' r n by (simp add: layoutEvent_def m)
qed

theorem BootstrapStarterLayout_partial_witness:
  "client_tbl thirdCreateFails = Some demoClient \<and>
   WindowIds demoClient = ''w1'' # [''w2'', ''w3''] \<and>
   window_tbl thirdCreateFails ''w1'' = Some \<lparr>ActiveTabId = ''t1''\<rparr> \<and>
   create_results thirdCreateFails (create_calls thirdCreateFails + 0) = Inr ''b1'' \<and>
   create_results thirdCreateFails (create_calls thirdCreateFails + 1) = Inr ''b2'' \<and>
   create_results thirdCreateFails (create_calls thirdCreateFails + 2) = Inl DeadlineExceeded \<and>
   fst (BootstrapStarterLayout \<lparr>journal = None\<rparr> thirdCreateFails) =
     Some (Wrapf ''unable to create block for starter layout'' DeadlineExceeded) \<and>
   create_calls (snd (snd (BootstrapStarterLayout \<lparr>journal = None\<rparr> thirdCreateFails))) = 3 \<and>
   map (\<lambda>b. (fst b, OID (snd b)))
     (block_tbl (snd (snd (BootstrapStarterLayout \<lparr>journal = None\<rparr> thirdCreateFails)))) =
     [(''t1'', ''b1''), (''t1'', ''b2'')] \<and>
   map (\<lambda>e. (fst e, WSLayoutActionData.IndexArr (Data (snd e)), BlockId (Data (snd e))))
     (bus_log (snd (snd (BootstrapStarterLayout \<lparr>journal = None\<rparr> thirdCreateFails)))) =
     [(''w1'', [0], ''b1''), (''w1'', [1], ''b2'')]"
proof -
  let ?R = "BootstrapStarterLayout \<lparr>journal = None\<rparr> thirdCreateFails"
  have h: "client_tbl thirdCreateFails = Some demoClient"
    "WindowIds demoClient = ''w1'' # [''w2'', ''w3'']"
    "window_tbl thirdCreateFails ''w1'' = Some \<lparr>ActiveTabId = ''t1''\<rparr>"
    "(1::nat) < 3" "(3::nat) \<le> 7" "length [''b1'', ''b2''] = 3 - 1"
    "\<forall>i<3 - 1. create_results thirdCreateFails (create_calls thirdCreateFails + i) =
        Inr ([''b1'', ''b2''] ! i)"
    "create_results thirdCreateFails (create_calls thirdCreateFails + (3 - 1)) =
        Inl DeadlineExceeded"
    "?R = (fst ?R, fst (snd ?R), snd (snd ?R))"
  proof -
    show "\<forall>i<3 - 1. create_results thirdCreateFails (create_calls thirdCreateFails + i) =
        Inr ([''b1'', ''b2''] ! i)"
    proof (intro allI impI)
      fix i :: nat assume "i < 3 - 1"
      then have "i = 0 \<or> i = 1" by auto
      then show "create_results thirdCreateFails (create_calls thirdCreateFails + i) =
          Inr ([''b1'', ''b2''] ! i)"
        by (auto simp: world_defs)
    qed
  qed (simp_all add: world_defs)
  have o: "create_results thirdCreateFails (create_calls thirdCreateFails + 0) = Inr ''b1''"
    "create_results thirdCreateFails (create_calls thirdCreateFails + 1) = Inr ''b2''"
    "create_results thirdCreateFails (create_calls thirdCreateFails + 2) = Inl DeadlineExceeded"
    by (simp_all add: world_defs)
  note t = BootstrapStarterLayout_partial[OF h]
  note r = t[THEN conjunct1]
  note n = t[THEN conjunct2, THEN conjunct1]
  note b = t[THEN conjunct2, THEN conjunct2, THEN conjunct1]
  note e = t[THEN conjunct2, THEN conjunct2, THEN conjunct2, THEN conjunct1]
  have n1: "create_calls (snd (snd ?R)) = 3" using n by (simp add: world_defs)
  have b1: "map (\<lambda>b. (fst b, OID (snd b))) (block_tbl (snd (snd ?R))) =
      [(''t1'', ''b1''), (''t1'', ''b2'')]"
    unfolding b by (simp add: world_defs starterLayout_def)
  have e1: "map (\<lambda>e. (fst e, WSLayoutActionData.IndexArr (Data (snd e)), BlockId (Data (snd e))))
     (bus_log (snd (snd ?R))) = [(''w1'', [0], ''b1''), (''w1'', [1], ''b2'')]"
    unfolding e by (simp add: world_defs starterLayout_def)
  from h(1-3) o r n1 b1 e1 show ?thesis by (intro conjI)
qed

text \<open>
  C3. For a client whose window list is empty, \<^verbatim>\<open>BootstrapStarterLayout\<close> returns an
  error and leaves the journal and the whole state as they were: no block is created
  and no event is sent.
\<close>

theorem BootstrapStarterLayout_no_windows:
  "client_tbl w = Some c \<Longrightarrow> WindowIds c = [] \<Longrightarrow>
     BootstrapStarterLayout ctx w =
       (Some (Errorf ''error bootstrapping layout, no windows exist''), ctx, w)"
  by (simp add: BootstrapStarterLayout_def DBGetSingleton_def)

theorem BootstrapStarterLayout_no_windows_witness:
  "client_tbl noWindowsWorld = Some \<lparr>WindowIds = [], TosAgreed = 0\<rparr> \<and>
   BootstrapStarterLayout \<lparr>journal = Some []\<rparr> noWindowsWorld =
     (Some (Errorf ''error bootstrapping layout, no windows exist''), \<lparr>journal = Some []\<rparr>,
      noWindowsWorld) \<and>
   block_tbl noWindowsWorld = [] \<and> bus_log noWindowsWorld = []"
  using BootstrapStarterLayout_no_windows[of noWindowsWorld
      "\<lparr>WindowIds = [], TosAgreed = 0\<rparr>" "\<lparr>journal = Some []\<rparr>"]
  by (simp add: world_defs)

text \<open>
  C8. The step list is in tree-construction order: every step whose index path is
  longer than one element comes after a step whose index path is that path without its
  last element.
\<close>

theorem starterLayout_tree_construction_order:
  "\<forall>i<length starterLayout. 1 < length (LayoutStep.IndexArr (starterLayout ! i)) \<longrightarrow>
     (\<exists>j<i. LayoutStep.IndexArr (starterLayout ! j) =
              butlast (LayoutStep.IndexArr (starterLayout ! i)))"
proof (intro allI impI)
  fix i
  assume i: "i < length starterLayout"
    and l: "1 < length (LayoutStep.IndexArr (starterLayout ! i))"
  from i have "i < 7" by (simp add: length_starterLayout)
  then consider "i = 0" | "i = 1" | "i = 2" | "i = 3" | "i = 4" | "i = 5" | "i = 6"
    by linarith
  then show "\<exists>j<i. LayoutStep.IndexArr (starterLayout ! j) =
                 butlast (LayoutStep.IndexArr (starterLayout ! i))"
  proof cases
    case 1 with l show ?thesis by (simp add: starterLayout_def)
  next
    case 2 with l show ?thesis by (simp add: starterLayout_def)
  next
    case 3 then show ?thesis by (intro exI[of _ 1]) (simp add: starterLayout_def)
  next
    case 4 then show ?thesis by (intro exI[of _ 1]) (simp add: starterLayout_def)
  next
    case 5 with l show ?thesis by (simp add: starterLayout_def)
  next
    case 6 then show ?thesis by (intro exI[of _ 4]) (simp add: starterLayout_def)
  next
    case 7 then show ?thesis by (intro exI[of _ 4]) (simp add: starterLayout_def)
  qed
qed

theorem starterLayout_tree_construction_order_witness:
  "3 < length starterLayout \<and> 1 < length (LayoutStep.IndexArr (starterLayout ! 3)) \<and>
   (\<exists>j<3. LayoutStep.IndexArr (starterLayout ! j) =
            butlast (LayoutStep.IndexArr (starterLayout ! 3)))"
  using starterLayout_tree_construction_order[rule_format, of 3]
  by (simp add: starterLayout_def)

section \<open>Terms-of-service acceptance\<close>

text \<open>
  C4. The claim is that an error of \<^verbatim>\<open>BootstrapStarterLayout\<close> during \<^verbatim>\<open>AgreeTos\<close> is
  returned by \<^verbatim>\<open>AgreeTos\<close>. On a client without windows the update of the client
  succeeds, the bootstrap that follows returns an error, and \<^verbatim>\<open>AgreeTos\<close> returns the
  batch with no error: the result of the bootstrap call is dropped.
\<close>

theorem AgreeTos_drops_bootstrap_error:
  "DBUpdate (ContextWithUpdates \<lparr>journal = None\<rparr>)
     \<lparr>WindowIds = [], TosAgreed = clock noWindowsWorld\<rparr> noWindowsWorld =
     (None,
      \<lparr>journal = Some [(UpdateType_Update,
                         ClientObj \<lparr>WindowIds = [], TosAgreed = 1700000000000\<rparr>)]\<rparr>,
      noWindowsWorld\<lparr>update_calls := 1,
        client_tbl := Some \<lparr>WindowIds = [], TosAgreed = 1700000000000\<rparr>\<rparr>) \<and>
   fst (BootstrapStarterLayout
     \<lparr>journal = Some [(UpdateType_Update,
                        ClientObj \<lparr>WindowIds = [], TosAgreed = 1700000000000\<rparr>)]\<rparr>
     (noWindowsWorld\<lparr>update_calls := 1,
        client_tbl := Some \<lparr>WindowIds = [], TosAgreed = 1700000000000\<rparr>\<rparr>)) =
     Some (Errorf ''error bootstrapping layout, no windows exist'') \<and>
   fst (AgreeTos \<lparr>journal = None\<rparr> noWindowsWorld) =
     ([(UpdateType_Update, ClientObj \<lparr>WindowIds = [], TosAgreed = 1700000000000\<rparr>)], None)"
  by (simp add: world_defs run_defs)

text \<open>
  C9, as the code has it. \<^verbatim>\<open>AgreeTos\<close> opens the journal before it mutates anything
  and mutates through the journaled context. When it returns no error, the batch it
  returns is what the journal of the context holds at the end: the records the context
  carried on entry (none for a context without a journal), then the record of the
  client update with the client as persisted, then one creation record for each block
  the bootstrap added to the store, in creation order. When it returns an error (its
  own lookup or its own update failed), it returns no batch: the batch is empty, nothing
  was persisted, and the journal holds nothing more than on entry.
\<close>

theorem AgreeTos_journal:
  assumes "AgreeTos ctx0 w = ((batch, err), ctx', w')"
  shows "(err = None \<longrightarrow>
           (\<exists>c tabId bs. client_tbl w = Some c \<and>
              client_tbl w' = Some (c\<lparr>TosAgreed := clock w\<rparr>) \<and>
              block_tbl w' = block_tbl w @ map (Pair tabId) bs \<and>
              journal ctx' = Some (ContextGetUpdatesRtn ctx0 @
                 (UpdateType_Update, ClientObj (c\<lparr>TosAgreed := clock w\<rparr>)) #
                 map (\<lambda>b. (UpdateType_Create, BlockObj b)) bs) \<and>
              batch = ContextGetUpdatesRtn ctx')) \<and>
         (err \<noteq> None \<longrightarrow>
            batch = [] \<and> client_tbl w' = client_tbl w \<and> block_tbl w' = block_tbl w \<and>
            journal ctx' = Some (ContextGetUpdatesRtn ctx0))"
proof (cases err)
  case None
  with assms AgreeTos_success[of ctx0 w batch ctx' w'] show ?thesis by simp
next
  case (Some e)
  with assms AgreeTos_failure[of ctx0 w batch e ctx' w'] show ?thesis by simp
qed

theorem AgreeTos_journal_witness:
  "snd (fst (AgreeTos \<lparr>journal = None\<rparr> thirdCreateFails)) = None \<and>
   fst (fst (AgreeTos \<lparr>journal = None\<rparr> thirdCreateFails)) =
     ContextGetUpdatesRtn (fst (snd (AgreeTos \<lparr>journal = None\<rparr> thirdCreateFails))) \<and>
   map (\<lambda>u. case u of (t, ClientObj c) \<Rightarrow> (t, ''client'')
              | (t, WindowObj v) \<Rightarrow> (t, ''window'')
              | (t, BlockObj b) \<Rightarrow> (t, OID b))
     (fst (fst (AgreeTos \<lparr>journal = None\<rparr> thirdCreateFails))) =
     [(UpdateType_Update, ''client''), (UpdateType_Create, ''b1''),
      (UpdateType_Create, ''b2'')] \<and>
   snd (fst (AgreeTos \<lparr>journal = None\<rparr> updateFailsWorld)) =
     Some (Wrapf ''error updating client data'' DeadlineExceeded) \<and>
   fst (fst (AgreeTos \<lparr>journal = None\<rparr> updateFailsWorld)) = [] \<and>
   journal (fst (snd (AgreeTos \<lparr>journal = None\<rparr> updateFailsWorld))) = Some [] \<and>
   client_tbl (snd (snd (AgreeTos \<lparr>journal = None\<rparr> updateFailsWorld))) =
     client_tbl updateFailsWorld"
proof -
  let ?X = "AgreeTos \<lparr>journal = None\<rparr> thirdCreateFails"
  let ?Y = "AgreeTos \<lparr>journal = None\<rparr> updateFailsWorld"
  have x: "snd (fst ?X) = None"
    and x3: "map (\<lambda>u. case u of (t, ClientObj c) \<Rightarrow> (t, ''client'')
              | (t, WindowObj v) \<Rightarrow> (t, ''window'')
              | (t, BlockObj b) \<Rightarrow> (t, OID b)) (fst (fst ?X)) =
     [(UpdateType_Update, ''client''), (UpdateType_Create, ''b1''),
      (UpdateType_Create, ''b2'')]"
    by (simp_all add: world_defs run_defs)
  have y: "snd (fst ?Y) = Some (Wrapf ''error updating client data'' DeadlineExceeded)"
    by (simp add: world_defs run_defs)
  have "?X = ((fst (fst ?X), snd (fst ?X)), fst (snd ?X), snd (snd ?X))" by simp
  from AgreeTos_journal[OF this, THEN conjunct1] x
  have x2: "fst (fst ?X) = ContextGetUpdatesRtn (fst (snd ?X))" by blast
  have "?Y = ((fst (fst ?Y), snd (fst ?Y)), fst (snd ?Y), snd (snd ?Y))" by simp
  from AgreeTos_journal[OF this, THEN conjunct2] y
  have y2: "fst (fst ?Y) = [] \<and> client_tbl (snd (snd ?Y)) = client_tbl updateFailsWorld \<and>
      block_tbl (snd (snd ?Y)) = block_tbl updateFailsWorld \<and>
      journal (fst (snd ?Y)) = Some (ContextGetUpdatesRtn \<lparr>journal = None\<rparr>)"
    by simp
  then have y3: "fst (fst ?Y) = []" "journal (fst (snd ?Y)) = Some []"
    "client_tbl (snd (snd ?Y)) = client_tbl updateFailsWorld"
    by (simp_all add: ContextGetUpdatesRtn_def)
  from x x2 x3 y y3 show ?thesis by (intro conjI)
qed

text \<open>
  C9 as stated says that the batch of the journal is returned alongside any error. On a
  context that already carries a record, with a store that refuses the client update,
  \<^verbatim>\<open>AgreeTos\<close> returns the error with an empty batch while the journal of the context
  still holds the record.
\<close>

theorem AgreeTos_journal_counterexample:
  "snd (fst (AgreeTos
     \<lparr>journal = Some [(UpdateType_Update, WindowObj \<lparr>ActiveTabId = ''t1''\<rparr>)]\<rparr>
     updateFailsWorld)) =
     Some (Wrapf ''error updating client data'' DeadlineExceeded) \<and>
   fst (fst (AgreeTos
     \<lparr>journal = Some [(UpdateType_Update, WindowObj \<lparr>ActiveTabId = ''t1''\<rparr>)]\<rparr>
     updateFailsWorld)) = [] \<and>
   ContextGetUpdatesRtn (fst (snd (AgreeTos
     \<lparr>journal = Some [(UpdateType_Update, WindowObj \<lparr>ActiveTabId = ''t1''\<rparr>)]\<rparr>
     updateFailsWorld))) =
     [(UpdateType_Update, WindowObj \<lparr>ActiveTabId = ''t1''\<rparr>)] \<and>
   fst (fst (AgreeTos
     \<lparr>journal = Some [(UpdateType_Update, WindowObj \<lparr>ActiveTabId = ''t1''\<rparr>)]\<rparr>
     updateFailsWorld)) \<noteq>
   ContextGetUpdatesRtn (fst (snd (AgreeTos
     \<lparr>journal = Some [(UpdateType_Update, WindowObj \<lparr>ActiveTabId = ''t1''\<rparr>)]\<rparr>
     updateFailsWorld)))"
  by (simp add: world_defs run_defs)

text \<open>
  C10. When \<^verbatim>\<open>AgreeTos\<close> returns no error, the client in the store afterwards is the
  client found on entry with \<^verbatim>\<open>TosAgreed\<close> set to the clock's value and nothing else
  changed; in particular \<^verbatim>\<open>WindowIds\<close> is the same.
\<close>

theorem AgreeTos_only_TosAgreed:
  assumes "AgreeTos ctx0 w = ((batch, None), ctx', w')"
  shows "\<exists>c c'. client_tbl w = Some c \<and> client_tbl w' = Some c' \<and>
           c' = c\<lparr>TosAgreed := clock w\<rparr> \<and> WindowIds c' = WindowIds c \<and>
           TosAgreed c' = clock w"
proof -
  from AgreeTos_success[OF assms] obtain c where
    "client_tbl w = Some c" "client_tbl w' = Some (c\<lparr>TosAgreed := clock w\<rparr>)"
    by (elim exE conjE)
  then show ?thesis by simp
qed

theorem AgreeTos_only_TosAgreed_witness:
  "snd (fst (AgreeTos \<lparr>journal = None\<rparr> demoWorld)) = None \<and>
   client_tbl demoWorld = Some \<lparr>WindowIds = [''w1'', ''w2'', ''w3''], TosAgreed = 0\<rparr> \<and>
   clock demoWorld = 1700000000000 \<and>
   client_tbl (snd (snd (AgreeTos \<lparr>journal = None\<rparr> demoWorld))) =
     Some \<lparr>WindowIds = [''w1'', ''w2'', ''w3''], TosAgreed = 1700000000000\<rparr>"
proof -
  let ?X = "AgreeTos \<lparr>journal = None\<rparr> demoWorld"
  have x: "snd (fst ?X) = None"
    by (simp add: world_defs run_defs)
  have d: "client_tbl demoWorld = Some \<lparr>WindowIds = [''w1'', ''w2'', ''w3''], TosAgreed = 0\<rparr>"
    "clock demoWorld = 1700000000000"
    by (simp_all add: world_defs)
  have "?X = ((fst (fst ?X), None), fst (snd ?X), snd (snd ?X))"
    using x by (metis prod.collapse)
  from AgreeTos_only_TosAgreed[OF this] obtain c c' where
    "client_tbl demoWorld = Some c" "client_tbl (snd (snd ?X)) = Some c'"
    "c' = c\<lparr>TosAgreed := clock demoWorld\<rparr>"
    by (elim exE conjE)
  with d have "client_tbl (snd (snd ?X)) =
     Some \<lparr>WindowIds = [''w1'', ''w2'', ''w3''], TosAgreed = 1700000000000\<rparr>"
    by simp
  with x d show ?thesis by (intro conjI)
qed

section \<open>Focus reordering\<close>

text \<open>
  C5. For a window ID in the client's list, at its first position \<open>k\<close>,
  \<^verbatim>\<open>FocusWindow\<close> is the store update of the client whose list is the ID followed by
  the entries before \<open>k\<close> and the entries after \<open>k\<close>, in their order; that list has
  the same multiset of IDs as the old one; and when the store accepts the update,
  \<^verbatim>\<open>FocusWindow\<close> returns no error and the client with that list is the one persisted.
\<close>

theorem FocusWindow_moves:
  assumes "client_tbl w = Some c" and "windowId \<in> set (WindowIds c)"
  shows "\<exists>k<length (WindowIds c).
           WindowIds c ! k = windowId \<and> windowId \<notin> set (take k (WindowIds c)) \<and>
           mset (windowId # (take k (WindowIds c) @ drop (Suc k) (WindowIds c))) =
             mset (WindowIds c) \<and>
           FocusWindow ctx windowId w =
             DBUpdate ctx
               (c\<lparr>WindowIds :=
                    windowId # (take k (WindowIds c) @ drop (Suc k) (WindowIds c))\<rparr>) w \<and>
           (update_results w (update_calls w) = None \<longrightarrow>
              fst (FocusWindow ctx windowId w) = None \<and>
              client_tbl (snd (snd (FocusWindow ctx windowId w))) =
                Some (c\<lparr>WindowIds :=
                         windowId # (take k (WindowIds c) @ drop (Suc k) (WindowIds c))\<rparr>))"
proof -
  from SliceIdx_present[OF assms(2)] obtain k where
    k: "k < length (WindowIds c)" "SliceIdx (WindowIds c) windowId = int k"
       "WindowIds c ! k = windowId" "windowId \<notin> set (take k (WindowIds c))" by blast
  let ?ids = "windowId # (take k (WindowIds c) @ drop (Suc k) (WindowIds c))"
  have mv: "MoveSliceIdxToFront (WindowIds c) (int k) = ?ids"
    using k(1,3) by (simp add: MoveSliceIdxToFront_in_range)
  have fw: "FocusWindow ctx windowId w = DBUpdate ctx (c\<lparr>WindowIds := ?ids\<rparr>) w"
    using assms(1) k(2) mv by (simp add: FocusWindow_def GetClientData_Some)
  have ms: "mset ?ids = mset (WindowIds c)"
    using mset_move_to_front[OF k(1)] k(3) by simp
  have ok: "update_results w (update_calls w) = None \<longrightarrow>
              fst (FocusWindow ctx windowId w) = None \<and>
              client_tbl (snd (snd (FocusWindow ctx windowId w))) =
                Some (c\<lparr>WindowIds := ?ids\<rparr>)"
    using assms(1) by (simp add: fw DBUpdate_def)
  show ?thesis
    by (intro exI[of _ k] conjI) (fact k(1) k(3) k(4) ms fw ok)+
qed

theorem FocusWindow_moves_witness:
  "client_tbl demoWorld = Some demoClient \<and> ''w3'' \<in> set (WindowIds demoClient) \<and>
   WindowIds demoClient = [''w1'', ''w2'', ''w3''] \<and>
   fst (FocusWindow \<lparr>journal = None\<rparr> ''w3'' demoWorld) = None \<and>
   client_tbl (snd (snd (FocusWindow \<lparr>journal = None\<rparr> ''w3'' demoWorld))) =
     Some \<lparr>WindowIds = [''w3'', ''w1'', ''w2''], TosAgreed = 0\<rparr>"
proof -
  let ?R = "FocusWindow \<lparr>journal = None\<rparr> ''w3'' demoWorld"
  have h: "client_tbl demoWorld = Some demoClient" "''w3'' \<in> set (WindowIds demoClient)"
    "WindowIds demoClient = [''w1'', ''w2'', ''w3'']"
    "update_results demoWorld (update_calls demoWorld) = None"
    by (simp_all add: world_defs)
  from FocusWindow_moves[OF h(1,2), of "\<lparr>journal = None\<rparr>"] obtain k where
    k: "k < length (WindowIds demoClient)" "WindowIds demoClient ! k = ''w3''"
    and p: "update_results demoWorld (update_calls demoWorld) = None \<longrightarrow>
              fst ?R = None \<and>
              client_tbl (snd (snd ?R)) =
                Some (demoClient\<lparr>WindowIds :=
                  ''w3'' # (take k (WindowIds demoClient) @ drop (Suc k) (WindowIds demoClient))\<rparr>)"
    by (elim exE conjE)
  from k have "k = 2" by (auto simp: h(3) less_Suc_eq numeral_3_eq_3)
  with p h(4) have "fst ?R = None"
    "client_tbl (snd (snd ?R)) = Some \<lparr>WindowIds = [''w3'', ''w1'', ''w2''], TosAgreed = 0\<rparr>"
    by (simp_all add: h(3)) (simp add: demoClient_def)
  with h(1-3) show ?thesis by (intro conjI)
qed

text \<open>
  C6. For a window ID that is not in the client's list, \<^verbatim>\<open>FocusWindow\<close> returns no
  error and leaves the journal and the whole state as they were: the list is unchanged
  and the store receives no update.
\<close>

theorem FocusWindow_unknown:
  "client_tbl w = Some c \<Longrightarrow> windowId \<notin> set (WindowIds c) \<Longrightarrow>
     FocusWindow ctx windowId w = (None, ctx, w)"
  by (simp add: FocusWindow_def GetClientData_Some SliceIdx_absent)

theorem FocusWindow_unknown_witness:
  "client_tbl demoWorld = Some demoClient \<and> ''w9'' \<notin> set (WindowIds demoClient) \<and>
   FocusWindow \<lparr>journal = Some []\<rparr> ''w9'' demoWorld = (None, \<lparr>journal = Some []\<rparr>, demoWorld)"
  using FocusWindow_unknown[of demoWorld demoClient "''w9''" "\<lparr>journal = Some []\<rparr>"]
  by (simp add: world_defs)

text \<open>
  C7. Focusing is idempotent: after a call of \<^verbatim>\<open>FocusWindow\<close> that returned no
  error, a second call with the same window ID leaves the persisted client, and so the
  order of its window list, as the first call left it, whether or not the store accepts
  the second update. (A first call that the store refuses persists nothing, so it is
  not an application of the focus.)
\<close>

theorem FocusWindow_idempotent:
  assumes "FocusWindow ctx windowId w = (None, ctx1, w1)"
  shows "\<exists>c1. client_tbl w1 = Some c1 \<and>
           client_tbl (snd (snd (FocusWindow ctx1 windowId w1))) = Some c1"
proof (cases "client_tbl w")
  case None
  with assms show ?thesis
    by (simp add: FocusWindow_def GetClientData_def DBGetSingleton_def)
next
  case (Some c)
  show ?thesis
  proof (cases "windowId \<in> set (WindowIds c)")
    case False
    from assms have "ctx1 = ctx" "w1 = w"
      by (simp_all add: FocusWindow_def GetClientData_Some[OF Some] SliceIdx_absent[OF False])
    then show ?thesis
      by (simp add: Some FocusWindow_def GetClientData_Some[OF Some] SliceIdx_absent[OF False])
  next
    case True
    from SliceIdx_present[OF True] obtain k where
      k: "k < length (WindowIds c)" "SliceIdx (WindowIds c) windowId = int k"
         "WindowIds c ! k = windowId" by blast
    let ?ids = "windowId # (take k (WindowIds c) @ drop (Suc k) (WindowIds c))"
    have "FocusWindow ctx windowId w = DBUpdate ctx (c\<lparr>WindowIds := ?ids\<rparr>) w"
      using Some k by (simp add: FocusWindow_def GetClientData_Some MoveSliceIdxToFront_in_range)
    with assms have "DBUpdate ctx (c\<lparr>WindowIds := ?ids\<rparr>) w = (None, ctx1, w1)" by simp
    then have c1: "client_tbl w1 = Some (c\<lparr>WindowIds := ?ids\<rparr>)"
      using Some by (auto simp: DBUpdate_def Let_def split: option.splits)
    have "WindowIds (c\<lparr>WindowIds := ?ids\<rparr>) =
        windowId # (take k (WindowIds c) @ drop (Suc k) (WindowIds c))"
      by simp
    from FocusWindow_head[OF c1 this, of ctx1] c1 show ?thesis by simp
  qed
qed

theorem FocusWindow_idempotent_witness:
  "fst focusedOnce = None \<and>
   client_tbl (snd (snd focusedOnce)) =
     Some \<lparr>WindowIds = [''w2'', ''w1'', ''w3''], TosAgreed = 0\<rparr> \<and>
   client_tbl (snd (snd focusedTwice)) =
     Some \<lparr>WindowIds = [''w2'', ''w1'', ''w3''], TosAgreed = 0\<rparr>"
proof -
  have ev: "focusedOnce =
     (None, \<lparr>journal = None\<rparr>,
      demoWorld\<lparr>update_calls := 1,
        client_tbl := Some \<lparr>WindowIds = [''w2'', ''w1'', ''w3''], TosAgreed = 0\<rparr>\<rparr>)"
    by (simp add: focusedOnce_def world_defs run_defs)
  have a: "FocusWindow \<lparr>journal = None\<rparr> ''w2'' demoWorld =
     (None, fst (snd focusedOnce), snd (snd focusedOnce))"
    using ev by (simp add: focusedOnce_def)
  from FocusWindow_idempotent[OF a] obtain c1 where
    "client_tbl (snd (snd focusedOnce)) = Some c1"
    "client_tbl (snd (snd focusedTwice)) = Some c1"
    unfolding focusedTwice_def by (elim exE conjE)
  moreover have "client_tbl (snd (snd focusedOnce)) =
      Some \<lparr>WindowIds = [''w2'', ''w1'', ''w3''], TosAgreed = 0\<rparr>"
    by (simp add: ev)
  moreover have "fst focusedOnce = None" by (simp add: ev)
  ultimately show ?thesis by simp
qed

end
